theory Spec2Isabelle
  imports Main "HOL-Library.Sublist"
begin

section \<open>The NCBI GenBank retriever: data model\<close>

text \<open>
  The script \<^verbatim>\<open>s26827_2025-2.py\<close> holds one class, \<^verbatim>\<open>NCBIRetriever\<close>, and the
  function \<^verbatim>\<open>main\<close>. Everything the script does beyond computing values goes through
  Biopython (Entrez, SeqIO), pandas, matplotlib and the file system. These collaborators are
  arguments of the model (what they answer to each request), and every call made to them is
  written to an event log, together with every line printed.
\<close>

text \<open>
  Exceptions. Both \<^verbatim>\<open>try\<close> blocks of the class catch \<^verbatim>\<open>Exception\<close>, and only print
  it; \<^verbatim>\<open>main\<close> catches nothing. \<open>OtherError\<close> stands for every exception of a
  library call (HTTP and URL errors, parser errors, \<^verbatim>\<open>ValueError\<close> of \<^verbatim>\<open>int\<close>,
  \<^verbatim>\<open>OSError\<close>) with its message.
\<close>

datatype exn = IndexError | KeyError string | OtherError string

text \<open>
  A parsed GenBank record (\<^verbatim>\<open>SeqRecord\<close>): the three attributes the script reads.
  \<open>rec_id\<close> is the attribute \<^verbatim>\<open>id\<close>.
\<close>

record seq_record =
  rec_id :: string
  seq :: string
  description :: string

text \<open>
  The dictionary \<^verbatim>\<open>Entrez.read\<close> returns for an \<^verbatim>\<open>esearch\<close> reply, through the three
  subscripts the script takes: \<open>Count\<close> is the outcome of
  \<^verbatim>\<open>int(search_results["Count"])\<close> (a missing key or a text that is no integer raises),
  \<open>WebEnv\<close> and \<open>QueryKey\<close> are \<open>None\<close> when the key is absent (the subscript then
  raises \<^verbatim>\<open>KeyError\<close>).
\<close>

record search_results =
  Count :: "exn + int"
  WebEnv :: "string option"
  QueryKey :: "string option"

text \<open>
  The remote service seen through Biopython.
  \<^item> \<open>efetch_taxonomy taxid\<close>: lines 28-29, \<^verbatim>\<open>Entrez.read(Entrez.efetch(db="taxonomy", ...))\<close>,
    a list of dictionaries (association lists);
  \<^item> \<open>esearch term\<close>: lines 34-35, \<^verbatim>\<open>Entrez.read(Entrez.esearch(db="nucleotide", ...))\<close>;
  \<^item> \<open>efetch_nucleotide retstart retmax webenv query_key\<close>: lines 61-74, the call, reading
    and closing the handle, and \<^verbatim>\<open>list(SeqIO.parse(...))\<close>.
  \<open>Inl\<close> is an exception raised anywhere in these lines.
\<close>

record entrez =
  efetch_taxonomy :: "string \<Rightarrow> exn + (string \<times> string) list list"
  esearch :: "string \<Rightarrow> exn + search_results"
  efetch_nucleotide :: "int \<Rightarrow> int \<Rightarrow> string \<Rightarrow> string \<Rightarrow> exn + seq_record list"

text \<open>One row of \<^verbatim>\<open>csv_data\<close> (lines 114-118) and a pandas data frame of such rows.\<close>

record report_row =
  Accession :: string
  Length :: int
  Description :: string

record dataframe =
  columns :: "string list"
  rows :: "report_row list"

text \<open>
  The local collaborators of the output steps. The file system and the chart back end: what
  each write answers, \<open>None\<close> for success and \<open>Some e\<close> for the exception it raises
  (lines 107-108, 122 and 137). And the sorting routine under \<^verbatim>\<open>sort_values\<close>, whose
  default (quicksort) is not stable: \<open>argsort_ties rows i\<close> is the rank it gives to row
  \<open>i\<close> among the rows of the same length, so the order of equal rows is the library's and
  not the model's.
\<close>

record filesystem =
  write_genbank :: "string \<Rightarrow> seq_record list \<Rightarrow> exn option"
  to_csv :: "string \<Rightarrow> dataframe \<Rightarrow> exn option"
  savefig :: "string \<Rightarrow> exn option"
  argsort_ties :: "report_row list \<Rightarrow> nat \<Rightarrow> nat"

text \<open>The lines the script prints, one constructor for each \<^verbatim>\<open>print\<close> of the source.\<close>

datatype message =
    MsgSearching string
  | MsgOrganism string string
  | MsgNoRecordsFor string
  | MsgFound int
  | MsgSearchError string exn
  | MsgNoSearchResults
  | MsgFetchError exn
  | MsgNoRecordsExiting
  | MsgFetching
  | MsgFiltered nat
  | MsgSavedSample string
  | MsgSavedCsv string
  | MsgSavedChart string

text \<open>
  The event log: printed lines, the three remote requests with their arguments, and the
  writes of the three output files. \<open>PlotLine\<close> is \<^verbatim>\<open>plt.plot(x, y, marker='o')\<close>.
\<close>

datatype event =
    Print message
  | EfetchTaxonomy string
  | Esearch string
  | EfetchNucleotide int int string string
  | WriteGenbank string "seq_record list"
  | WriteCsv string dataframe
  | PlotLine "string list" "int list"
  | SaveFig string

text \<open>
  An instance of \<^verbatim>\<open>NCBIRetriever\<close>. The attributes \<^verbatim>\<open>webenv\<close>, \<^verbatim>\<open>query_key\<close> and
  \<^verbatim>\<open>count\<close> do not exist until \<^verbatim>\<open>search_taxid\<close> assigns them: \<open>None\<close> is
  \<^verbatim>\<open>hasattr\<close> answering false.
\<close>

record NCBIRetriever =
  email :: string
  api_key :: string
  webenv :: "string option"
  query_key :: "string option"
  count :: "int option"

text \<open>What \<^verbatim>\<open>main\<close> reads from the terminal; the two lengths are the outcomes of
  \<^verbatim>\<open>int(input(...))\<close>.\<close>

record user_input =
  email_in :: string
  api_key_in :: string
  taxid_in :: string
  min_length_in :: "exn + int"
  max_length_in :: "exn + int"

section \<open>The class NCBIRetriever\<close>

text \<open>
  \<^verbatim>\<open>__init__\<close> (lines 17-23). The assignments to the module attributes of \<^verbatim>\<open>Entrez\<close>
  configure the library and are read nowhere in the script.
\<close>

definition NCBIRetriever_init :: "string \<Rightarrow> string \<Rightarrow> NCBIRetriever" where
  "NCBIRetriever_init e k =
     \<lparr>email = e, api_key = k, webenv = None, query_key = None, count = None\<rparr>"

text \<open>Lines 28-31: the taxonomy lookup and \<^verbatim>\<open>records[0]["ScientificName"]\<close>.\<close>

definition resolve_organism :: "entrez \<Rightarrow> string \<Rightarrow> event list \<times> (exn + string)" where
  "resolve_organism ez taxid =
     (case efetch_taxonomy ez taxid of
        Inl e \<Rightarrow> ([EfetchTaxonomy taxid], Inl e)
      | Inr records \<Rightarrow>
          (case records of
             [] \<Rightarrow> ([EfetchTaxonomy taxid], Inl IndexError)
           | r0 # _ \<Rightarrow>
               (case map_of r0 ''ScientificName'' of
                  None \<Rightarrow> ([EfetchTaxonomy taxid], Inl (KeyError ''ScientificName''))
                | Some organism_name \<Rightarrow>
                    ([EfetchTaxonomy taxid, Print (MsgOrganism organism_name taxid)],
                     Inr organism_name))))"

text \<open>
  Lines 36-48, after the search reply has been read. The attributes are assigned one after
  the other, so an exception at line 45 leaves the assignment of line 44 in place.
\<close>

definition store_search ::
  "NCBIRetriever \<Rightarrow> string \<Rightarrow> search_results \<Rightarrow> NCBIRetriever \<times> event list \<times> (exn + int option)"
where
  "store_search self organism_name sr =
     (case Count sr of
        Inl e \<Rightarrow> (self, [], Inl e)
      | Inr cnt \<Rightarrow>
          if cnt = 0 then (self, [Print (MsgNoRecordsFor organism_name)], Inr None)
          else
            (case WebEnv sr of
               None \<Rightarrow> (self, [Print (MsgFound cnt)], Inl (KeyError ''WebEnv''))
             | Some w \<Rightarrow>
                 (case QueryKey sr of
                    None \<Rightarrow>
                      (self\<lparr>webenv := Some w\<rparr>, [Print (MsgFound cnt)], Inl (KeyError ''QueryKey''))
                  | Some q \<Rightarrow>
                      (self\<lparr>webenv := Some w, query_key := Some q, count := Some cnt\<rparr>,
                       [Print (MsgFound cnt)], Inr (Some cnt)))))"

text \<open>The body of the \<^verbatim>\<open>try\<close> of \<^verbatim>\<open>search_taxid\<close> (lines 28-48).\<close>

definition search_taxid_try ::
  "entrez \<Rightarrow> NCBIRetriever \<Rightarrow> string \<Rightarrow> NCBIRetriever \<times> event list \<times> (exn + int option)"
where
  "search_taxid_try ez self taxid =
     (case resolve_organism ez taxid of
        (evs, Inl e) \<Rightarrow> (self, evs, Inl e)
      | (evs, Inr organism_name) \<Rightarrow>
          (let search_term = ''txid'' @ taxid @ ''[Organism]'' in
           case esearch ez search_term of
             Inl e \<Rightarrow> (self, evs @ [Esearch search_term], Inl e)
           | Inr sr \<Rightarrow>
               (case store_search self organism_name sr of
                  (self', evs', res) \<Rightarrow> (self', evs @ [Esearch search_term] @ evs', res))))"

text \<open>
  \<^verbatim>\<open>search_taxid\<close> (lines 25-52): the instance afterwards, the value returned
  (\<open>None\<close> is Python's \<^verbatim>\<open>None\<close>) and the events. The handler of line 50 prints and
  returns \<^verbatim>\<open>None\<close>; it undoes nothing.
\<close>

definition search_taxid ::
  "entrez \<Rightarrow> NCBIRetriever \<Rightarrow> string \<Rightarrow> NCBIRetriever \<times> int option \<times> event list"
where
  "search_taxid ez self taxid =
     (case search_taxid_try ez self taxid of
        (self', evs, Inr res) \<Rightarrow> (self', res, Print (MsgSearching taxid) # evs)
      | (self', evs, Inl e) \<Rightarrow>
          (self', None, Print (MsgSearching taxid) # evs @ [Print (MsgSearchError taxid e)]))"

text \<open>
  \<^verbatim>\<open>fetch_records\<close> (lines 54-79): the list returned and the events. The method assigns no
  attribute, so the instance is the same afterwards.
\<close>

definition fetch_records ::
  "entrez \<Rightarrow> NCBIRetriever \<Rightarrow> int \<Rightarrow> int \<Rightarrow> seq_record list \<times> event list"
where
  "fetch_records ez self start max_records =
     (case webenv self of
        None \<Rightarrow> ([], [Print MsgNoSearchResults])
      | Some w \<Rightarrow>
          (case query_key self of
             None \<Rightarrow> ([], [Print MsgNoSearchResults])
           | Some q \<Rightarrow>
               (let batch_size = min max_records 500 in
                case efetch_nucleotide ez start batch_size w q of
                  Inr parsed_records \<Rightarrow>
                    (parsed_records, [EfetchNucleotide start batch_size w q])
                | Inl e \<Rightarrow>
                    ([], [EfetchNucleotide start batch_size w q, Print (MsgFetchError e)]))))"

section \<open>The function main\<close>

text \<open>The list comprehension of lines 99-102.\<close>

fun filtered_records :: "int \<Rightarrow> int \<Rightarrow> seq_record list \<Rightarrow> seq_record list" where
  "filtered_records min_length max_length [] = []"
| "filtered_records min_length max_length (rec # sample_records) =
     (if min_length \<le> int (length (seq rec)) \<and> int (length (seq rec)) \<le> max_length
      then rec # filtered_records min_length max_length sample_records
      else filtered_records min_length max_length sample_records)"

text \<open>The loop of lines 112-118.\<close>

fun csv_data :: "seq_record list \<Rightarrow> report_row list" where
  "csv_data [] = []"
| "csv_data (record # rest) =
     \<lparr>Accession = rec_id record, Length = int (length (seq record)),
      Description = description record\<rparr> # csv_data rest"

text \<open>
  pandas, as far as lines 120-126 use it. \<^verbatim>\<open>pd.DataFrame\<close> of a list of dictionaries takes
  its columns from the keys, so the frame of the empty list has no column at all, and
  \<^verbatim>\<open>sort_values(by="Length", ascending=False)\<close> raises \<^verbatim>\<open>KeyError\<close> on a frame
  without that column. On a frame with it, the rows come out by descending length; rows of
  the same length come out by the rank \<open>ties\<close> gives to their positions (two stable
  passes: by rank, then by length).
\<close>

definition DataFrame :: "report_row list \<Rightarrow> dataframe" where
  "DataFrame data =
     \<lparr>columns = (if data = [] then [] else [''Accession'', ''Length'', ''Description'']),
      rows = data\<rparr>"

definition sort_values_Length ::
  "(report_row list \<Rightarrow> nat \<Rightarrow> nat) \<Rightarrow> dataframe \<Rightarrow> exn + dataframe"
where
  "sort_values_Length ties df =
     (if ''Length'' \<in> set (columns df)
      then Inr (df\<lparr>rows :=
             map snd (sort_key (\<lambda>(i, r). - Length r)
                        (sort_key (\<lambda>(i, r). ties (rows df) i) (enumerate 0 (rows df))))\<rparr>)
      else Inl (KeyError ''Length''))"

text \<open>
  Lines 106-140: the archive, the CSV report and the chart. The result is the events and
  the exception that ends \<^verbatim>\<open>main\<close>, if any.
\<close>

definition write_outputs ::
  "filesystem \<Rightarrow> string \<Rightarrow> seq_record list \<Rightarrow> event list \<times> exn option"
where
  "write_outputs fs taxid filtered =
     (let output_file = ''taxid_'' @ taxid @ ''_sample.gb'';
          csv_file = ''taxid_'' @ taxid @ ''_report.csv'';
          chart_file = ''taxid_'' @ taxid @ ''_lengths.png'';
          df = DataFrame (csv_data filtered);
          ev1 = [WriteGenbank output_file filtered];
          ev2 = ev1 @ [Print (MsgSavedSample output_file), WriteCsv csv_file df];
          ev3 = ev2 @ [Print (MsgSavedCsv csv_file)]
      in
      case write_genbank fs output_file filtered of
        Some e \<Rightarrow> (ev1, Some e)
      | None \<Rightarrow>
          (case to_csv fs csv_file df of
             Some e \<Rightarrow> (ev2, Some e)
           | None \<Rightarrow>
               (case sort_values_Length (argsort_ties fs) df of
                  Inl e \<Rightarrow> (ev3, Some e)
                | Inr df_sorted \<Rightarrow>
                    (let ev4 = ev3 @ [PlotLine (map Accession (rows df_sorted))
                                               (map Length (rows df_sorted)),
                                      SaveFig chart_file]
                     in
                     case savefig fs chart_file of
                       Some e \<Rightarrow> (ev4, Some e)
                     | None \<Rightarrow> (ev4 @ [Print (MsgSavedChart chart_file)], None)))))"

text \<open>
  \<^verbatim>\<open>main\<close> (lines 81-140). The prompts of \<^verbatim>\<open>input\<close> are not logged. A length that
  is no integer ends the run before the search (lines 88-89).
\<close>

definition main :: "user_input \<Rightarrow> entrez \<Rightarrow> filesystem \<Rightarrow> event list \<times> exn option" where
  "main inp ez fs =
     (let retriever = NCBIRetriever_init (email_in inp) (api_key_in inp);
          taxid = taxid_in inp
      in
      case min_length_in inp of
        Inl e \<Rightarrow> ([], Some e)
      | Inr min_length \<Rightarrow>
          (case max_length_in inp of
             Inl e \<Rightarrow> ([], Some e)
           | Inr max_length \<Rightarrow>
               (case search_taxid ez retriever taxid of
                  (retriever', cnt, evs) \<Rightarrow>
                    if cnt = None \<or> cnt = Some 0
                    then (evs @ [Print MsgNoRecordsExiting], None)
                    else
                      (case fetch_records ez retriever' 0 20 of
                         (sample_records, evf) \<Rightarrow>
                           (let filtered = filtered_records min_length max_length sample_records
                            in
                            case write_outputs fs taxid filtered of
                              (evw, res) \<Rightarrow>
                                (evs @ [Print MsgFetching] @ evf
                                   @ [Print (MsgFiltered (length filtered))] @ evw,
                                 res))))))"

section \<open>Observers of the event log\<close>

fun is_search_call :: "event \<Rightarrow> bool" where
  "is_search_call (Esearch _) = True"
| "is_search_call (EfetchTaxonomy _) = True"
| "is_search_call _ = False"

fun is_fetch_call :: "event \<Rightarrow> bool" where
  "is_fetch_call (EfetchNucleotide _ _ _ _) = True"
| "is_fetch_call _ = False"

fun is_artifact :: "event \<Rightarrow> bool" where
  "is_artifact (WriteGenbank _ _) = True"
| "is_artifact (WriteCsv _ _) = True"
| "is_artifact (SaveFig _) = True"
| "is_artifact _ = False"

fun is_chart_step :: "event \<Rightarrow> bool" where
  "is_chart_step (PlotLine _ _) = True"
| "is_chart_step (SaveFig _) = True"
| "is_chart_step _ = False"

text \<open>The events \<^verbatim>\<open>search_taxid\<close> can log: printed lines and its two requests.\<close>

fun search_step :: "event \<Rightarrow> bool" where
  "search_step (Print _) = True"
| "search_step (EfetchTaxonomy _) = True"
| "search_step (Esearch _) = True"
| "search_step _ = False"

text \<open>How many records an output step carries.\<close>

fun artifact_size :: "event \<Rightarrow> nat" where
  "artifact_size (WriteGenbank _ recs) = length recs"
| "artifact_size (WriteCsv _ df) = length (rows df)"
| "artifact_size (PlotLine xs ys) = max (length xs) (length ys)"
| "artifact_size _ = 0"

text \<open>
  The remote service keeps to \<^verbatim>\<open>retmax\<close>: a reply holds no more records than were asked
  for. This is a property of the service, not of the script.
\<close>

definition honours_retmax :: "entrez \<Rightarrow> bool" where
  "honours_retmax ez =
     (\<forall>start retmax w q recs.
        efetch_nucleotide ez start retmax w q = Inr recs
        \<longrightarrow> int (length recs) \<le> max 0 retmax)"

text \<open>Sample records, services and inputs, for the concrete runs below.\<close>

definition rec_A :: seq_record where
  "rec_A = \<lparr>rec_id = ''A1'', seq = ''ACGT'', description = ''first''\<rparr>"

definition rec_B :: seq_record where
  "rec_B = \<lparr>rec_id = ''B2'', seq = ''AC'', description = ''second''\<rparr>"

definition rec_C :: seq_record where
  "rec_C = \<lparr>rec_id = ''C3'', seq = ''ACGTACGT'', description = ''third''\<rparr>"

definition ez_ok :: entrez where
  "ez_ok = \<lparr>efetch_taxonomy = (\<lambda>_. Inr [[(''ScientificName'', ''Homo sapiens'')]]),
            esearch = (\<lambda>_. Inr \<lparr>Count = Inr 3, WebEnv = Some ''WE1'', QueryKey = Some ''1''\<rparr>),
            efetch_nucleotide = (\<lambda>start retmax w q. Inr (take (nat retmax) [rec_A, rec_B, rec_C]))\<rparr>"

definition fs_ok :: filesystem where
  "fs_ok = \<lparr>write_genbank = (\<lambda>_ _. None), to_csv = (\<lambda>_ _. None), savefig = (\<lambda>_. None),
            argsort_ties = (\<lambda>_ i. i)\<rparr>"

definition inp_example :: "int \<Rightarrow> int \<Rightarrow> user_input" where
  "inp_example lo hi = \<lparr>email_in = ''a@b.c'', api_key_in = ''key'', taxid_in = ''9606'',
      min_length_in = Inr lo, max_length_in = Inr hi\<rparr>"

definition ez_zero :: entrez where
  "ez_zero = ez_ok\<lparr>esearch :=
     (\<lambda>_. Inr \<lparr>Count = Inr 0, WebEnv = Some ''WE0'', QueryKey = Some ''1''\<rparr>)\<rparr>"


definition ez_no_query_key :: entrez where
  "ez_no_query_key = ez_ok\<lparr>esearch :=
     (\<lambda>_. Inr \<lparr>Count = Inr 5, WebEnv = Some ''WE2'', QueryKey = None\<rparr>)\<rparr>"

definition searched :: NCBIRetriever where
  "searched = \<lparr>email = ''a@b.c'', api_key = ''key'', webenv = Some ''WE1'',
      query_key = Some ''1'', count = Some 3\<rparr>"

text \<open>
  Two services that report 1000 records. The first holds 25 and returns at most
  \<^verbatim>\<open>retmax\<close> of them; the second returns 22 records whatever \<^verbatim>\<open>retmax\<close> is.
\<close>

definition ez_many :: entrez where
  "ez_many =
     \<lparr>efetch_taxonomy = (\<lambda>_. Inr [[(''ScientificName'', ''Homo sapiens'')]]),
      esearch = (\<lambda>_. Inr \<lparr>Count = Inr 1000, WebEnv = Some ''WE1'', QueryKey = Some ''1''\<rparr>),
      efetch_nucleotide = (\<lambda>start retmax w q. Inr (take (nat retmax) (replicate 25 rec_A)))\<rparr>"

definition ez_over :: entrez where
  "ez_over = ez_many\<lparr>efetch_nucleotide := (\<lambda>_ _ _ _. Inr (replicate 22 rec_A))\<rparr>"

section \<open>The length filter\<close>

lemma filtered_records_filter:
  "filtered_records lo hi recs =
     filter (\<lambda>r. lo \<le> int (length (seq r)) \<and> int (length (seq r)) \<le> hi) recs"
  by (induction recs) simp_all

text \<open>
  Claim C1. The length filter of \<^verbatim>\<open>main\<close> returns exactly the records whose sequence
  length lies between the two bounds, both bounds included: the same records (first
  conjunct), each as often as in the input (second), in the order of the input (third);
  the empty input gives the empty output (fourth).
\<close>

theorem filtered_records_exact:
  "set (filtered_records lo hi recs) =
     {r. r \<in> set recs \<and> lo \<le> int (length (seq r)) \<and> int (length (seq r)) \<le> hi}
   \<and> count_list (filtered_records lo hi recs) r =
       (if lo \<le> int (length (seq r)) \<and> int (length (seq r)) \<le> hi
        then count_list recs r else 0)
   \<and> subseq (filtered_records lo hi recs) recs
   \<and> filtered_records lo hi [] = []"
proof -
  have s: "set (filtered_records lo hi recs) =
     {r. r \<in> set recs \<and> lo \<le> int (length (seq r)) \<and> int (length (seq r)) \<le> hi}"
    by (auto simp: filtered_records_filter)
  have c: "count_list (filtered_records lo hi recs) r =
       (if lo \<le> int (length (seq r)) \<and> int (length (seq r)) \<le> hi
        then count_list recs r else 0)"
    by (induction recs) auto
  have o: "subseq (filtered_records lo hi recs) recs"
    by (simp add: filtered_records_filter)
  show ?thesis using s c o by simp
qed

section \<open>The search step\<close>

lemma search_taxid_success:
  assumes "efetch_taxonomy ez taxid = Inr (r0 # rs)"
    and "map_of r0 ''ScientificName'' = Some name"
    and "esearch ez (''txid'' @ taxid @ ''[Organism]'') = Inr sr"
    and "Count sr = Inr c" and "c \<noteq> 0"
    and "WebEnv sr = Some w" and "QueryKey sr = Some q"
  shows "search_taxid ez self taxid =
    (self\<lparr>webenv := Some w, query_key := Some q, count := Some c\<rparr>, Some c,
     [Print (MsgSearching taxid), EfetchTaxonomy taxid, Print (MsgOrganism name taxid),
      Esearch (''txid'' @ taxid @ ''[Organism]''), Print (MsgFound c)])"
  using assms
  by (simp add: search_taxid_def search_taxid_try_def resolve_organism_def store_search_def)

lemma resolve_organism_events: "list_all search_step (fst (resolve_organism ez taxid))"
  by (simp add: resolve_organism_def split: sum.splits list.splits option.splits)

lemma store_search_events: "list_all search_step (fst (snd (store_search self name sr)))"
  by (simp add: store_search_def split: sum.splits option.splits)

lemma search_taxid_try_events:
  "list_all search_step (fst (snd (search_taxid_try ez self taxid)))"
proof -
  obtain evs r where ro: "resolve_organism ez taxid = (evs, r)"
    by (cases "resolve_organism ez taxid")
  have e: "list_all search_step evs"
    using resolve_organism_events [of ez taxid] ro by simp
  show ?thesis
  proof (cases r)
    case (Inl x)
    then show ?thesis using ro e by (simp add: search_taxid_try_def)
  next
    case (Inr name)
    show ?thesis
    proof (cases "esearch ez (''txid'' @ taxid @ ''[Organism]'')")
      case (Inl x)
      then show ?thesis using ro e Inr by (simp add: search_taxid_try_def)
    next
      case (Inr sr)
      obtain s' evs' res where st: "store_search self name sr = (s', evs', res)"
        by (cases "store_search self name sr")
      have "list_all search_step evs'"
        using store_search_events [of self name sr] st by simp
      then show ?thesis using ro e \<open>r = Inr name\<close> Inr st
        by (simp add: search_taxid_try_def)
    qed
  qed
qed

lemma search_taxid_steps: "list_all search_step (snd (snd (search_taxid ez self taxid)))"
proof -
  obtain s' evs res where t: "search_taxid_try ez self taxid = (s', evs, res)"
    by (cases "search_taxid_try ez self taxid")
  have "list_all search_step evs"
    using search_taxid_try_events [of ez self taxid] t by simp
  then show ?thesis using t by (cases res) (simp_all add: search_taxid_def)
qed

lemma search_step_observed:
  assumes "list_all search_step evs"
  shows "filter is_fetch_call evs = []" and "filter is_artifact evs = []"
    and "filter is_chart_step evs = []" and "list_all (\<lambda>ev. artifact_size ev \<le> n) evs"
proof -
  have p: "\<not> is_fetch_call ev \<and> \<not> is_artifact ev \<and> \<not> is_chart_step ev
           \<and> artifact_size ev = 0" if "search_step ev" for ev
    using that by (cases ev) simp_all
  show "filter is_fetch_call evs = []" using assms p by (induction evs) simp_all
  show "filter is_artifact evs = []" using assms p by (induction evs) simp_all
  show "filter is_chart_step evs = []" using assms p by (induction evs) simp_all
  show "list_all (\<lambda>ev. artifact_size ev \<le> n) evs" using assms p by (induction evs) simp_all
qed

lemma search_taxid_events:
  "filter is_fetch_call (snd (snd (search_taxid ez self taxid))) = []
   \<and> filter is_artifact (snd (snd (search_taxid ez self taxid))) = []"
  using search_step_observed(1,2) [OF search_taxid_steps] by simp

lemma store_search_zero:
  "Count sr = Inr 0 \<Longrightarrow> snd (snd (store_search self name sr)) = Inr None"
  by (simp add: store_search_def)

lemma search_taxid_zero:
  assumes "esearch ez (''txid'' @ taxid @ ''[Organism]'') = Inr sr" and "Count sr = Inr 0"
  shows "fst (snd (search_taxid ez self taxid)) = None"
proof -
  obtain evs r where ro: "resolve_organism ez taxid = (evs, r)"
    by (cases "resolve_organism ez taxid")
  show ?thesis
  proof (cases r)
    case (Inl x)
    then show ?thesis using ro by (simp add: search_taxid_def search_taxid_try_def)
  next
    case (Inr name)
    obtain s' evs' res where st: "store_search self name sr = (s', evs', res)"
      by (cases "store_search self name sr")
    have "res = Inr None" using store_search_zero [OF assms(2), of self name] st by simp
    then show ?thesis using ro Inr assms(1) st
      by (simp add: search_taxid_def search_taxid_try_def)
  qed
qed

lemma main_halts_on_None:
  assumes "min_length_in inp = Inr lo" and "max_length_in inp = Inr hi"
    and "fst (snd (search_taxid ez (NCBIRetriever_init (email_in inp) (api_key_in inp))
                     (taxid_in inp))) = None"
  shows "main inp ez fs =
     (snd (snd (search_taxid ez (NCBIRetriever_init (email_in inp) (api_key_in inp))
                  (taxid_in inp))) @ [Print MsgNoRecordsExiting], None)"
  using assms by (cases "search_taxid ez (NCBIRetriever_init (email_in inp) (api_key_in inp))
                  (taxid_in inp)") (simp add: main_def Let_def)

text \<open>
  Claim C2. When the search reports a count of 0, \<^verbatim>\<open>search_taxid\<close> returns \<^verbatim>\<open>None\<close>
  (line 40) and \<^verbatim>\<open>main\<close> returns at line 94, normally and with the line
  "No records found. Exiting." as its last output. The run makes no nucleotide fetch and
  writes none of the three files: neither the archive, nor the CSV report, nor the chart.
\<close>

theorem zero_count_halts:
  assumes "min_length_in inp = Inr lo" and "max_length_in inp = Inr hi"
    and "esearch ez (''txid'' @ taxid_in inp @ ''[Organism]'') = Inr sr"
    and "Count sr = Inr 0"
  shows "snd (main inp ez fs) = None
     \<and> last (fst (main inp ez fs)) = Print MsgNoRecordsExiting
     \<and> filter is_fetch_call (fst (main inp ez fs)) = []
     \<and> filter is_artifact (fst (main inp ez fs)) = []"
proof -
  let ?r = "NCBIRetriever_init (email_in inp) (api_key_in inp)"
  have n: "fst (snd (search_taxid ez ?r (taxid_in inp))) = None"
    using search_taxid_zero [OF assms(3) assms(4)] .
  have m: "main inp ez fs =
     (snd (snd (search_taxid ez ?r (taxid_in inp))) @ [Print MsgNoRecordsExiting], None)"
    using main_halts_on_None [OF assms(1) assms(2) n] .
  show ?thesis
    using search_taxid_events [of ez ?r "taxid_in inp"] by (simp add: m)
qed

theorem zero_count_halts_witness:
  "main (inp_example 3 5) ez_zero fs_ok =
     ([Print (MsgSearching ''9606''), EfetchTaxonomy ''9606'',
       Print (MsgOrganism ''Homo sapiens'' ''9606''), Esearch ''txid9606[Organism]'',
       Print (MsgNoRecordsFor ''Homo sapiens''), Print MsgNoRecordsExiting], None)
   \<and> filter is_fetch_call (fst (main (inp_example 3 5) ez_zero fs_ok)) = []
   \<and> filter is_artifact (fst (main (inp_example 3 5) ez_zero fs_ok)) = []"
proof -
  have a: "min_length_in (inp_example 3 5) = Inr 3" "max_length_in (inp_example 3 5) = Inr 5"
    by (simp_all add: inp_example_def)
  have b: "esearch ez_zero (''txid'' @ taxid_in (inp_example 3 5) @ ''[Organism]'')
      = Inr \<lparr>Count = Inr 0, WebEnv = Some ''WE0'', QueryKey = Some ''1''\<rparr>"
    by (simp add: ez_zero_def)
  have c: "Count \<lparr>Count = Inr 0, WebEnv = Some ''WE0'', QueryKey = Some ''1''\<rparr> = Inr 0"
    by simp
  have m: "main (inp_example 3 5) ez_zero fs_ok =
     ([Print (MsgSearching ''9606''), EfetchTaxonomy ''9606'',
       Print (MsgOrganism ''Homo sapiens'' ''9606''), Esearch ''txid9606[Organism]'',
       Print (MsgNoRecordsFor ''Homo sapiens''), Print MsgNoRecordsExiting], None)"
    by (simp add: main_def Let_def inp_example_def ez_zero_def ez_ok_def NCBIRetriever_init_def
        search_taxid_def search_taxid_try_def resolve_organism_def store_search_def)
  show ?thesis
    using zero_count_halts [OF a b c, of fs_ok] m by simp
qed

section \<open>The pipeline after a successful search\<close>

lemma main_after_search:
  assumes "min_length_in inp = Inr lo" and "max_length_in inp = Inr hi"
    and "search_taxid ez (NCBIRetriever_init (email_in inp) (api_key_in inp)) (taxid_in inp)
           = (self', Some c, evs)"
    and "c \<noteq> 0"
    and "fetch_records ez self' 0 20 = (sample, evf)"
  shows "main inp ez fs =
     (evs @ [Print MsgFetching] @ evf
        @ [Print (MsgFiltered (length (filtered_records lo hi sample)))]
        @ fst (write_outputs fs (taxid_in inp) (filtered_records lo hi sample)),
      snd (write_outputs fs (taxid_in inp) (filtered_records lo hi sample)))"
  using assms by (simp add: main_def Let_def split: prod.splits)

section \<open>The batch fetcher\<close>



text \<open>
  Claim C7. On an instance that holds both tokens, a batch fetch from a start offset
  \<open>start \<ge> 0\<close> makes exactly one remote request: the nucleotide fetch from that offset,
  asking for \<open>min max_records 500\<close> records (never more than 500, never more than was
  asked for), with the stored \<^verbatim>\<open>webenv\<close> and \<^verbatim>\<open>query_key\<close>. It makes no taxonomy or
  search request.
\<close>

theorem fetch_request_bounded:
  assumes "0 \<le> start" and "webenv self = Some w" and "query_key self = Some q"
  shows "filter is_fetch_call (snd (fetch_records ez self start max_records))
           = [EfetchNucleotide start (min max_records 500) w q]
     \<and> filter is_search_call (snd (fetch_records ez self start max_records)) = []
     \<and> min max_records 500 \<le> 500 \<and> min max_records 500 \<le> max_records"
  using assms by (simp add: fetch_records_def Let_def split: sum.splits)

theorem fetch_request_bounded_witness:
  "(0::int) \<le> 40 \<and> webenv searched = Some ''WE1'' \<and> query_key searched = Some ''1''
   \<and> filter is_fetch_call (snd (fetch_records ez_ok searched 40 700))
        = [EfetchNucleotide 40 500 ''WE1'' ''1'']
   \<and> filter is_search_call (snd (fetch_records ez_ok searched 40 700)) = []"
proof -
  have a: "(0::int) \<le> 40" by simp
  have b: "webenv searched = Some ''WE1''" by (simp add: searched_def)
  have c: "query_key searched = Some ''1''" by (simp add: searched_def)
  show ?thesis
    using fetch_request_bounded [OF a b c, of ez_ok 700] a b c by simp
qed



section \<open>The length filter, continued\<close>

text \<open>
  Claim C8. The length filter is idempotent: with bounds \<open>lo \<le> hi\<close>, filtering the
  filtered list again with the same bounds changes nothing.
\<close>

theorem filtered_records_idempotent:
  assumes "lo \<le> hi"
  shows "filtered_records lo hi (filtered_records lo hi recs) = filtered_records lo hi recs"
  by (induction recs) simp_all

theorem filtered_records_idempotent_witness:
  "(3::int) \<le> 5
   \<and> filtered_records 3 5 (filtered_records 3 5 [rec_A, rec_B, rec_C]) = [rec_A]
   \<and> filtered_records 3 5 [rec_A, rec_B, rec_C] = [rec_A]"
proof -
  have h: "(3::int) \<le> 5" by simp
  have v: "filtered_records 3 5 [rec_A, rec_B, rec_C] = [rec_A]"
    by (simp add: rec_A_def rec_B_def rec_C_def)
  show ?thesis
    using filtered_records_idempotent [OF h, of "[rec_A, rec_B, rec_C]"] v by simp
qed

section \<open>Invalid criteria and empty results\<close>

lemma filtered_records_inverted: "hi < lo \<Longrightarrow> filtered_records lo hi recs = []"
  by (induction recs) simp_all

text \<open>
  Claim C6, as the code has it. \<^verbatim>\<open>main\<close> compares nothing with nothing before line 99:
  bounds with \<open>lo > hi\<close> are neither rejected nor flagged. The filter runs, returns the
  empty list whatever was fetched, and the run goes on as it does for any empty result,
  printing that 0 records were filtered.
\<close>

theorem inverted_range_not_rejected:
  assumes "hi < lo"
    and "min_length_in inp = Inr lo" and "max_length_in inp = Inr hi"
    and "search_taxid ez (NCBIRetriever_init (email_in inp) (api_key_in inp)) (taxid_in inp)
           = (self', Some c, evs)"
    and "c \<noteq> 0"
    and "fetch_records ez self' 0 20 = (sample, evf)"
  shows "filtered_records lo hi sample = []
     \<and> main inp ez fs =
         (evs @ [Print MsgFetching] @ evf @ [Print (MsgFiltered 0)]
            @ fst (write_outputs fs (taxid_in inp) []),
          snd (write_outputs fs (taxid_in inp) []))"
proof -
  have e: "filtered_records lo hi sample = []"
    using assms(1) by (rule filtered_records_inverted)
  show ?thesis
    using main_after_search [OF assms(2) assms(3) assms(4) assms(5) assms(6), of fs] e
    by simp
qed

lemma search_ok_example:
  "search_taxid ez_ok (NCBIRetriever_init ''a@b.c'' ''key'') ''9606'' =
     (searched, Some 3,
      [Print (MsgSearching ''9606''), EfetchTaxonomy ''9606'',
       Print (MsgOrganism ''Homo sapiens'' ''9606''), Esearch ''txid9606[Organism]'',
       Print (MsgFound 3)])"
  by (simp add: searched_def ez_ok_def NCBIRetriever_init_def search_taxid_def
      search_taxid_try_def resolve_organism_def store_search_def)

lemma fetch_ok_example:
  "fetch_records ez_ok searched 0 20 =
     ([rec_A, rec_B, rec_C], [EfetchNucleotide 0 20 ''WE1'' ''1''])"
  by (simp add: fetch_records_def searched_def ez_ok_def)

lemma write_outputs_empty_example:
  "write_outputs fs_ok ''9606'' [] =
     ([WriteGenbank ''taxid_9606_sample.gb'' [],
       Print (MsgSavedSample ''taxid_9606_sample.gb''),
       WriteCsv ''taxid_9606_report.csv'' \<lparr>columns = [], rows = []\<rparr>,
       Print (MsgSavedCsv ''taxid_9606_report.csv'')], Some (KeyError ''Length''))"
  by (simp add: write_outputs_def Let_def fs_ok_def DataFrame_def sort_values_Length_def)

lemma inp_example_simps:
  "min_length_in (inp_example lo hi) = Inr lo" "max_length_in (inp_example lo hi) = Inr hi"
  "taxid_in (inp_example lo hi) = ''9606''" "email_in (inp_example lo hi) = ''a@b.c''"
  "api_key_in (inp_example lo hi) = ''key''"
  by (simp_all add: inp_example_def)

theorem inverted_range_not_rejected_witness:
  "(3::int) < 5
   \<and> filtered_records 5 3 [rec_A, rec_B, rec_C] = []
   \<and> fst (main (inp_example 5 3) ez_ok fs_ok) =
       [Print (MsgSearching ''9606''), EfetchTaxonomy ''9606'',
        Print (MsgOrganism ''Homo sapiens'' ''9606''), Esearch ''txid9606[Organism]'',
        Print (MsgFound 3), Print MsgFetching, EfetchNucleotide 0 20 ''WE1'' ''1'',
        Print (MsgFiltered 0),
        WriteGenbank ''taxid_9606_sample.gb'' [],
        Print (MsgSavedSample ''taxid_9606_sample.gb''),
        WriteCsv ''taxid_9606_report.csv'' \<lparr>columns = [], rows = []\<rparr>,
        Print (MsgSavedCsv ''taxid_9606_report.csv'')]"
proof -
  have h: "(3::int) < 5" by simp
  have s: "search_taxid ez_ok
      (NCBIRetriever_init (email_in (inp_example 5 3)) (api_key_in (inp_example 5 3)))
      (taxid_in (inp_example 5 3)) =
     (searched, Some 3,
      [Print (MsgSearching ''9606''), EfetchTaxonomy ''9606'',
       Print (MsgOrganism ''Homo sapiens'' ''9606''), Esearch ''txid9606[Organism]'',
       Print (MsgFound 3)])"
    using search_ok_example by (simp add: inp_example_simps)
  have c: "(3::int) \<noteq> 0" by simp
  from inverted_range_not_rejected [OF h inp_example_simps(1) inp_example_simps(2) s c
      fetch_ok_example, of fs_ok]
  show ?thesis
    using h by (simp add: inp_example_simps write_outputs_empty_example)
qed

text \<open>
  Claim C6 as stated fails: with the bounds 5 and 3 the run is not stopped before the
  filter. The three records are fetched, the filter returns the empty list without a word,
  line 104 prints 0, and the archive and the report are written.
\<close>

theorem inverted_range_counterexample:
  "filtered_records 5 3 [rec_A, rec_B, rec_C] = []
   \<and> main (inp_example 5 3) ez_ok fs_ok =
      ([Print (MsgSearching ''9606''), EfetchTaxonomy ''9606'',
        Print (MsgOrganism ''Homo sapiens'' ''9606''), Esearch ''txid9606[Organism]'',
        Print (MsgFound 3), Print MsgFetching, EfetchNucleotide 0 20 ''WE1'' ''1'',
        Print (MsgFiltered 0),
        WriteGenbank ''taxid_9606_sample.gb'' [],
        Print (MsgSavedSample ''taxid_9606_sample.gb''),
        WriteCsv ''taxid_9606_report.csv'' \<lparr>columns = [], rows = []\<rparr>,
        Print (MsgSavedCsv ''taxid_9606_report.csv'')],
       Some (KeyError ''Length''))"
proof -
  have f: "filtered_records 5 3 [rec_A, rec_B, rec_C] = []"
    by (simp add: rec_A_def rec_B_def rec_C_def)
  have s: "search_taxid ez_ok
      (NCBIRetriever_init (email_in (inp_example 5 3)) (api_key_in (inp_example 5 3)))
      (taxid_in (inp_example 5 3)) =
     (searched, Some 3,
      [Print (MsgSearching ''9606''), EfetchTaxonomy ''9606'',
       Print (MsgOrganism ''Homo sapiens'' ''9606''), Esearch ''txid9606[Organism]'',
       Print (MsgFound 3)])"
    using search_ok_example by (simp add: inp_example_simps)
  have c: "(3::int) \<noteq> 0" by simp
  note m = main_after_search [OF inp_example_simps(1) inp_example_simps(2) s c
      fetch_ok_example, of fs_ok, unfolded f]
  show ?thesis
    using f m by (simp add: inp_example_simps write_outputs_empty_example)
qed

section \<open>Output steps\<close>

lemma length_csv_data: "length (csv_data recs) = length recs"
  by (induction recs) simp_all

lemma csv_data_Nil: "csv_data recs = [] \<longleftrightarrow> recs = []"
  by (cases recs) simp_all

lemma length_filtered_records: "length (filtered_records lo hi recs) \<le> length recs"
  by (induction recs) simp_all

lemma fetch_records_steps:
  "filter is_chart_step (snd (fetch_records ez self start max_records)) = []"
  "filter is_artifact (snd (fetch_records ez self start max_records)) = []"
  "list_all (\<lambda>ev. artifact_size ev \<le> n) (snd (fetch_records ez self start max_records))"
  by (simp_all add: fetch_records_def Let_def split: option.splits sum.splits)

lemma fetch_records_calls:
  "filter is_fetch_call (snd (fetch_records ez self start max_records)) = []
   \<or> (\<exists>w q. filter is_fetch_call (snd (fetch_records ez self start max_records))
              = [EfetchNucleotide start (min max_records 500) w q])"
  by (simp add: fetch_records_def Let_def split: option.splits sum.splits)

lemma fetch_records_length:
  assumes "honours_retmax ez"
  shows "length (fst (fetch_records ez self 0 20)) \<le> 20"
proof (cases "fetch_records ez self 0 20 = ([], snd (fetch_records ez self 0 20))")
  case True
  then show ?thesis by (metis fst_conv list.size(3) zero_le)
next
  case False
  then obtain w q recs where "efetch_nucleotide ez 0 20 w q = Inr recs"
    and "fst (fetch_records ez self 0 20) = recs"
    by (auto simp: fetch_records_def Let_def split: option.splits sum.splits)
  then show ?thesis using assms by (fastforce simp: honours_retmax_def)
qed

lemma write_outputs_calls: "filter is_fetch_call (fst (write_outputs fs taxid filtered)) = []"
  by (simp add: write_outputs_def Let_def split: option.splits sum.splits)

lemma write_outputs_sizes:
  "list_all (\<lambda>ev. artifact_size ev \<le> length filtered) (fst (write_outputs fs taxid filtered))"
  by (auto simp: write_outputs_def Let_def DataFrame_def sort_values_Length_def
      length_csv_data split: option.splits sum.splits if_splits)

lemma write_outputs_empty_no_chart:
  "filter is_chart_step (fst (write_outputs fs taxid [])) = []"
  by (simp add: write_outputs_def Let_def DataFrame_def sort_values_Length_def
      split: option.splits)

lemma write_outputs_empty_csv:
  assumes "write_genbank fs (''taxid_'' @ taxid @ ''_sample.gb'') [] = None"
  shows "WriteCsv (''taxid_'' @ taxid @ ''_report.csv'') \<lparr>columns = [], rows = []\<rparr>
           \<in> set (fst (write_outputs fs taxid []))"
  using assms
  by (simp add: write_outputs_def Let_def DataFrame_def sort_values_Length_def
      split: option.splits)

text \<open>
  Claim C5, as the code has it. In a run whose filtered list is empty, no plot call is made
  and no chart file is saved, so a chart file exists only for a non-empty filtered list;
  and once the archive is written the CSV report is written too, as a frame with no rows
  (and, being the frame of an empty list, no columns).
\<close>

theorem empty_result_no_chart:
  assumes "min_length_in inp = Inr lo" and "max_length_in inp = Inr hi"
    and "search_taxid ez (NCBIRetriever_init (email_in inp) (api_key_in inp)) (taxid_in inp)
           = (self', Some c, evs)"
    and "c \<noteq> 0"
    and "fetch_records ez self' 0 20 = (sample, evf)"
    and "filtered_records lo hi sample = []"
    and "write_genbank fs (''taxid_'' @ taxid_in inp @ ''_sample.gb'') [] = None"
  shows "filter is_chart_step (fst (main inp ez fs)) = []
     \<and> WriteCsv (''taxid_'' @ taxid_in inp @ ''_report.csv'') \<lparr>columns = [], rows = []\<rparr>
           \<in> set (fst (main inp ez fs))"
proof -
  have m: "fst (main inp ez fs) =
      evs @ [Print MsgFetching] @ evf @ [Print (MsgFiltered 0)]
        @ fst (write_outputs fs (taxid_in inp) [])"
    using main_after_search [OF assms(1) assms(2) assms(3) assms(4) assms(5), of fs] assms(6)
    by simp
  have s: "filter is_chart_step evs = []"
    using search_step_observed(3) [OF search_taxid_steps,
        of ez "NCBIRetriever_init (email_in inp) (api_key_in inp)" "taxid_in inp"] assms(3)
    by simp
  have f: "filter is_chart_step evf = []"
    using fetch_records_steps(1) [of ez self' 0 20] assms(5) by simp
  show ?thesis
    using s f write_outputs_empty_no_chart [of fs "taxid_in inp"]
      write_outputs_empty_csv [OF assms(7)]
    by (simp add: m)
qed

theorem empty_result_no_chart_witness:
  "filtered_records 9 12 [rec_A, rec_B, rec_C] = []
   \<and> filter is_chart_step (fst (main (inp_example 9 12) ez_ok fs_ok)) = []
   \<and> WriteCsv ''taxid_9606_report.csv'' \<lparr>columns = [], rows = []\<rparr>
         \<in> set (fst (main (inp_example 9 12) ez_ok fs_ok))"
proof -
  have s: "search_taxid ez_ok
      (NCBIRetriever_init (email_in (inp_example 9 12)) (api_key_in (inp_example 9 12)))
      (taxid_in (inp_example 9 12)) =
     (searched, Some 3,
      [Print (MsgSearching ''9606''), EfetchTaxonomy ''9606'',
       Print (MsgOrganism ''Homo sapiens'' ''9606''), Esearch ''txid9606[Organism]'',
       Print (MsgFound 3)])"
    using search_ok_example by (simp add: inp_example_simps)
  have c: "(3::int) \<noteq> 0" by simp
  have f: "filtered_records 9 12 [rec_A, rec_B, rec_C] = []"
    by (simp add: rec_A_def rec_B_def rec_C_def)
  have g: "write_genbank fs_ok (''taxid_'' @ taxid_in (inp_example 9 12) @ ''_sample.gb'') []
      = None"
    by (simp add: fs_ok_def)
  from empty_result_no_chart [OF inp_example_simps(1) inp_example_simps(2) s c
      fetch_ok_example f g]
  show ?thesis using f by (simp add: inp_example_simps)
qed

text \<open>
  Claim C5 as stated fails: the chart step is not skipped. With bounds 9 and 12 none of
  the three fetched records passes the filter; the archive and a report without header are
  written, and the run then ends at line 126 with the \<^verbatim>\<open>KeyError\<close> of sorting a frame
  that has no column \<^verbatim>\<open>Length\<close>, instead of ending normally.
\<close>

theorem empty_result_counterexample:
  "filtered_records 9 12 [rec_A, rec_B, rec_C] = []
   \<and> main (inp_example 9 12) ez_ok fs_ok =
      ([Print (MsgSearching ''9606''), EfetchTaxonomy ''9606'',
        Print (MsgOrganism ''Homo sapiens'' ''9606''), Esearch ''txid9606[Organism]'',
        Print (MsgFound 3), Print MsgFetching, EfetchNucleotide 0 20 ''WE1'' ''1'',
        Print (MsgFiltered 0),
        WriteGenbank ''taxid_9606_sample.gb'' [],
        Print (MsgSavedSample ''taxid_9606_sample.gb''),
        WriteCsv ''taxid_9606_report.csv'' \<lparr>columns = [], rows = []\<rparr>,
        Print (MsgSavedCsv ''taxid_9606_report.csv'')],
       Some (KeyError ''Length''))"
proof -
  have f: "filtered_records 9 12 [rec_A, rec_B, rec_C] = []"
    by (simp add: rec_A_def rec_B_def rec_C_def)
  have s: "search_taxid ez_ok
      (NCBIRetriever_init (email_in (inp_example 9 12)) (api_key_in (inp_example 9 12)))
      (taxid_in (inp_example 9 12)) =
     (searched, Some 3,
      [Print (MsgSearching ''9606''), EfetchTaxonomy ''9606'',
       Print (MsgOrganism ''Homo sapiens'' ''9606''), Esearch ''txid9606[Organism]'',
       Print (MsgFound 3)])"
    using search_ok_example by (simp add: inp_example_simps)
  have c: "(3::int) \<noteq> 0" by simp
  note m = main_after_search [OF inp_example_simps(1) inp_example_simps(2) s c
      fetch_ok_example, of fs_ok, unfolded f]
  show ?thesis
    using f m by (simp add: inp_example_simps write_outputs_empty_example)
qed

section \<open>The size of the sample\<close>

lemma main_cases:
  obtains (bad_input) e where "main inp ez fs = ([], Some e)"
  | (no_records) "main inp ez fs =
       (snd (snd (search_taxid ez (NCBIRetriever_init (email_in inp) (api_key_in inp))
                    (taxid_in inp))) @ [Print MsgNoRecordsExiting], None)"
  | (fetched) lo hi self' c where "min_length_in inp = Inr lo" and "max_length_in inp = Inr hi"
      and "search_taxid ez (NCBIRetriever_init (email_in inp) (api_key_in inp)) (taxid_in inp)
             = (self', Some c, snd (snd (search_taxid ez
                  (NCBIRetriever_init (email_in inp) (api_key_in inp)) (taxid_in inp))))"
      and "c \<noteq> 0"
proof (cases "min_length_in inp")
  case (Inl e)
  then have "main inp ez fs = ([], Some e)" by (simp add: main_def Let_def)
  then show ?thesis by (rule bad_input)
next
  case lo: (Inr lo)
  show ?thesis
  proof (cases "max_length_in inp")
    case (Inl e)
    then have "main inp ez fs = ([], Some e)" using lo by (simp add: main_def Let_def)
    then show ?thesis by (rule bad_input)
  next
    case hi: (Inr hi)
    let ?S = "search_taxid ez (NCBIRetriever_init (email_in inp) (api_key_in inp)) (taxid_in inp)"
    obtain self' cnt evs where s: "?S = (self', cnt, evs)" by (cases ?S)
    show ?thesis
    proof (cases "cnt = None \<or> cnt = Some 0")
      case True
      then have "main inp ez fs = (snd (snd ?S) @ [Print MsgNoRecordsExiting], None)"
        using lo hi s by (auto simp: main_def Let_def)
      then show ?thesis by (rule no_records)
    next
      case False
      then obtain c where "cnt = Some c" "c \<noteq> 0" by auto
      then show ?thesis using lo hi s fetched [of lo hi self' c] by simp
    qed
  qed
qed

lemma filtered_records_replicate:
  assumes "lo \<le> int (length (seq r))" and "int (length (seq r)) \<le> hi"
  shows "filtered_records lo hi (replicate n r) = replicate n r"
  using assms by (induction n) simp_all

lemma write_outputs_ok_sizes:
  assumes "filtered \<noteq> []"
  shows "map artifact_size (filter is_artifact (fst (write_outputs fs_ok taxid filtered)))
           = [length filtered, length filtered, 0]"
    and "map artifact_size (filter is_chart_step (fst (write_outputs fs_ok taxid filtered)))
           = [length filtered, 0]"
    and "snd (write_outputs fs_ok taxid filtered) = None"
    and "WriteGenbank (''taxid_'' @ taxid @ ''_sample.gb'') filtered
           \<in> set (fst (write_outputs fs_ok taxid filtered))"
  using assms
  by (simp_all add: write_outputs_def Let_def fs_ok_def DataFrame_def sort_values_Length_def
      csv_data_Nil length_csv_data)

lemma search_many_example:
  "search_taxid ez_many (NCBIRetriever_init ''a@b.c'' ''key'') ''9606'' =
     (searched\<lparr>count := Some 1000\<rparr>, Some 1000,
      [Print (MsgSearching ''9606''), EfetchTaxonomy ''9606'',
       Print (MsgOrganism ''Homo sapiens'' ''9606''), Esearch ''txid9606[Organism]'',
       Print (MsgFound 1000)])"
  by (simp add: searched_def ez_many_def NCBIRetriever_init_def search_taxid_def
      search_taxid_try_def resolve_organism_def store_search_def)

lemma search_over_example:
  "search_taxid ez_over (NCBIRetriever_init ''a@b.c'' ''key'') ''9606'' =
     (searched\<lparr>count := Some 1000\<rparr>, Some 1000,
      [Print (MsgSearching ''9606''), EfetchTaxonomy ''9606'',
       Print (MsgOrganism ''Homo sapiens'' ''9606''), Esearch ''txid9606[Organism]'',
       Print (MsgFound 1000)])"
  by (simp add: searched_def ez_over_def ez_many_def NCBIRetriever_init_def search_taxid_def
      search_taxid_try_def resolve_organism_def store_search_def)

lemma fetch_many_example:
  "fetch_records ez_many (searched\<lparr>count := Some 1000\<rparr>) 0 20 =
     (replicate 20 rec_A, [EfetchNucleotide 0 20 ''WE1'' ''1''])"
  by (simp add: fetch_records_def searched_def ez_many_def)

lemma fetch_over_example:
  "fetch_records ez_over (searched\<lparr>count := Some 1000\<rparr>) 0 20 =
     (replicate 22 rec_A, [EfetchNucleotide 0 20 ''WE1'' ''1''])"
  by (simp add: fetch_records_def searched_def ez_over_def ez_many_def)

lemma rec_A_in_range: "(1::int) \<le> int (length (seq rec_A))" "int (length (seq rec_A)) \<le> 9"
  by (simp_all add: rec_A_def)

text \<open>
  Claim C10, as the code has it. Whatever count the search reports, a run of \<^verbatim>\<open>main\<close>
  makes at most one nucleotide fetch, and that one asks for 20 records from offset 0
  (first conjunct); nothing in the run asks for the rest. The archive, the CSV report and
  the chart each hold at most as many records as the reply to that one request holds
  (second conjunct), for the script passes the parsed reply on as it is. They hold at most
  20 records when the service returns no more records than \<^verbatim>\<open>retmax\<close> asks for (third
  conjunct).
\<close>

theorem sample_from_one_fetch:
  "(filter is_fetch_call (fst (main inp ez fs)) = []
    \<or> (\<exists>w q. filter is_fetch_call (fst (main inp ez fs)) = [EfetchNucleotide 0 20 w q]))
   \<and> list_all
        (\<lambda>ev. artifact_size ev
               \<le> length (fst (fetch_records ez
                    (fst (search_taxid ez (NCBIRetriever_init (email_in inp) (api_key_in inp))
                            (taxid_in inp))) 0 20)))
        (fst (main inp ez fs))
   \<and> (honours_retmax ez
        \<longrightarrow> list_all (\<lambda>ev. artifact_size ev \<le> 20) (fst (main inp ez fs)))"
proof -
  let ?S = "search_taxid ez (NCBIRetriever_init (email_in inp) (api_key_in inp)) (taxid_in inp)"
  let ?evs = "snd (snd ?S)"
  let ?F = "fetch_records ez (fst ?S) 0 20"
  let ?n = "length (fst ?F)"
  have e: "filter is_fetch_call ?evs = []" "list_all (\<lambda>ev. artifact_size ev \<le> k) ?evs" for k
    using search_step_observed(1,4) [OF search_taxid_steps] by simp_all
  have ab: "(filter is_fetch_call (fst (main inp ez fs)) = []
      \<or> (\<exists>w q. filter is_fetch_call (fst (main inp ez fs)) = [EfetchNucleotide 0 20 w q]))
     \<and> list_all (\<lambda>ev. artifact_size ev \<le> ?n) (fst (main inp ez fs))"
  proof (cases inp ez fs rule: main_cases)
    case (bad_input e)
    then show ?thesis by simp
  next
    case no_records
    then show ?thesis using e by simp
  next
    case (fetched lo hi self' c)
    have s: "fst ?S = self'" using fetched(3) by (metis fst_conv)
    let ?fl = "filtered_records lo hi (fst ?F)"
    have m: "fst (main inp ez fs) =
        ?evs @ [Print MsgFetching] @ snd ?F @ [Print (MsgFiltered (length ?fl))]
          @ fst (write_outputs fs (taxid_in inp) ?fl)"
      using main_after_search [OF fetched(1) fetched(2) fetched(3) fetched(4),
          of "fst ?F" "snd ?F" fs] s
      by simp
    have w: "list_all (\<lambda>ev. artifact_size ev \<le> ?n)
               (fst (write_outputs fs (taxid_in inp) ?fl))"
      using write_outputs_sizes [of ?fl fs "taxid_in inp"]
        length_filtered_records [of lo hi "fst ?F"]
      by (auto simp: list_all_iff)
    have calls: "filter is_fetch_call (fst (main inp ez fs)) = filter is_fetch_call (snd ?F)"
      using e(1) write_outputs_calls [of fs "taxid_in inp" ?fl] by (simp add: m)
    have c1: "filter is_fetch_call (fst (main inp ez fs)) = []
          \<or> (\<exists>w q. filter is_fetch_call (fst (main inp ez fs)) = [EfetchNucleotide 0 20 w q])"
      using fetch_records_calls [of ez "fst ?S" 0 20] by (simp add: calls)
    have c2: "list_all (\<lambda>ev. artifact_size ev \<le> ?n) (fst (main inp ez fs))"
      using e(2) [of ?n] w fetch_records_steps(3) [of ?n ez "fst ?S" 0 20] by (simp add: m)
    show ?thesis using c1 c2 by simp
  qed
  have c: "list_all (\<lambda>ev. artifact_size ev \<le> 20) (fst (main inp ez fs))"
    if "honours_retmax ez"
    using ab fetch_records_length [OF that, of "fst ?S"] by (auto simp: list_all_iff)
  show ?thesis using ab c by simp
qed

theorem sample_from_one_fetch_witness:
  "honours_retmax ez_many
   \<and> filter is_fetch_call (fst (main (inp_example 1 9) ez_many fs_ok))
       = [EfetchNucleotide 0 20 ''WE1'' ''1'']
   \<and> map artifact_size (filter is_artifact (fst (main (inp_example 1 9) ez_many fs_ok)))
       = [20, 20, 0]
   \<and> list_all (\<lambda>ev. artifact_size ev \<le> 20) (fst (main (inp_example 1 9) ez_many fs_ok))"
proof -
  have h: "honours_retmax ez_many"
    by (auto simp: honours_retmax_def ez_many_def)
  have s: "search_taxid ez_many
      (NCBIRetriever_init (email_in (inp_example 1 9)) (api_key_in (inp_example 1 9)))
      (taxid_in (inp_example 1 9)) =
     (searched\<lparr>count := Some 1000\<rparr>, Some 1000,
      [Print (MsgSearching ''9606''), EfetchTaxonomy ''9606'',
       Print (MsgOrganism ''Homo sapiens'' ''9606''), Esearch ''txid9606[Organism]'',
       Print (MsgFound 1000)])"
    using search_many_example by (simp add: inp_example_simps)
  have c: "(1000::int) \<noteq> 0" by simp
  have f: "filtered_records 1 9 (replicate 20 rec_A) = replicate 20 rec_A"
    using rec_A_in_range by (rule filtered_records_replicate)
  have n: "replicate 20 rec_A \<noteq> []" by simp
  note m = main_after_search [OF inp_example_simps(1) inp_example_simps(2) s c
      fetch_many_example, of fs_ok, unfolded f]
  have calls: "filter is_fetch_call (fst (main (inp_example 1 9) ez_many fs_ok))
       = [EfetchNucleotide 0 20 ''WE1'' ''1'']"
    using write_outputs_calls [of fs_ok "''9606''" "replicate 20 rec_A"]
    by (simp add: m inp_example_simps)
  have sizes: "map artifact_size (filter is_artifact (fst (main (inp_example 1 9) ez_many fs_ok)))
       = [20, 20, 0]"
    using write_outputs_ok_sizes(1) [OF n, of "''9606''"]
    by (simp add: m inp_example_simps)
  show ?thesis
    using sample_from_one_fetch [of "inp_example 1 9" ez_many fs_ok] h calls sizes by simp
qed

text \<open>
  Claim C10 as stated fails: the bound of 20 is a bound on what is asked for, not on what
  arrives. The service \<open>ez_over\<close> answers the one request for 20 records with 22, lines
  73-75 keep them all, and with bounds 1 and 9 all 22 pass the filter: the archive, the
  CSV report and the plot each carry 22 records, and the run ends normally.
\<close>

theorem sample_over_20_counterexample:
  "filter is_fetch_call (fst (main (inp_example 1 9) ez_over fs_ok))
     = [EfetchNucleotide 0 20 ''WE1'' ''1'']
   \<and> WriteGenbank ''taxid_9606_sample.gb'' (replicate 22 rec_A)
       \<in> set (fst (main (inp_example 1 9) ez_over fs_ok))
   \<and> map artifact_size (filter is_artifact (fst (main (inp_example 1 9) ez_over fs_ok)))
       = [22, 22, 0]
   \<and> map artifact_size (filter is_chart_step (fst (main (inp_example 1 9) ez_over fs_ok)))
       = [22, 0]
   \<and> snd (main (inp_example 1 9) ez_over fs_ok) = None"
proof -
  have s: "search_taxid ez_over
      (NCBIRetriever_init (email_in (inp_example 1 9)) (api_key_in (inp_example 1 9)))
      (taxid_in (inp_example 1 9)) =
     (searched\<lparr>count := Some 1000\<rparr>, Some 1000,
      [Print (MsgSearching ''9606''), EfetchTaxonomy ''9606'',
       Print (MsgOrganism ''Homo sapiens'' ''9606''), Esearch ''txid9606[Organism]'',
       Print (MsgFound 1000)])"
    using search_over_example by (simp add: inp_example_simps)
  have c: "(1000::int) \<noteq> 0" by simp
  have f: "filtered_records 1 9 (replicate 22 rec_A) = replicate 22 rec_A"
    using rec_A_in_range by (rule filtered_records_replicate)
  have n: "replicate 22 rec_A \<noteq> []" by simp
  note m = main_after_search [OF inp_example_simps(1) inp_example_simps(2) s c
      fetch_over_example, of fs_ok, unfolded f]
  note w = write_outputs_ok_sizes [OF n, of "''9606''"]
  have calls: "filter is_fetch_call (fst (main (inp_example 1 9) ez_over fs_ok))
       = [EfetchNucleotide 0 20 ''WE1'' ''1'']"
    using write_outputs_calls [of fs_ok "''9606''" "replicate 22 rec_A"]
    by (simp add: m inp_example_simps)
  have gb: "WriteGenbank ''taxid_9606_sample.gb'' (replicate 22 rec_A)
       \<in> set (fst (main (inp_example 1 9) ez_over fs_ok))"
    using w(4) by (simp add: m inp_example_simps)
  have a: "map artifact_size (filter is_artifact (fst (main (inp_example 1 9) ez_over fs_ok)))
       = [22, 22, 0]"
    using w(1) by (simp add: m inp_example_simps)
  have ch: "map artifact_size (filter is_chart_step (fst (main (inp_example 1 9) ez_over fs_ok)))
       = [22, 0]"
    using w(2) by (simp add: m inp_example_simps)
  have r: "snd (main (inp_example 1 9) ez_over fs_ok) = None"
    using w(3) by (simp add: m inp_example_simps)
  show ?thesis using calls gb a ch r by simp
qed

section \<open>Session state across searches\<close>

lemma store_search_keeps:
  assumes "snd (snd (store_search self name sr)) \<noteq> Inr (Some c')" 
    and "Count sr = Inr c'"
  shows "query_key (fst (store_search self name sr)) = query_key self"
    and "count (fst (store_search self name sr)) = count self"
    and "webenv (fst (store_search self name sr)) = webenv self
         \<or> (\<exists>w'. c' \<noteq> 0 \<and> WebEnv sr = Some w' \<and> QueryKey sr = None
                 \<and> webenv (fst (store_search self name sr)) = Some w')"
  using assms by (auto simp: store_search_def split: option.splits if_splits)

lemma store_search_raises_keeps:
  assumes "Count sr = Inl e"
  shows "fst (store_search self name sr) = self"
  using assms by (simp add: store_search_def)

lemma search_taxid_None_keeps:
  assumes "fst (snd (search_taxid ez self taxid)) = None"
  shows "query_key (fst (search_taxid ez self taxid)) = query_key self
     \<and> count (fst (search_taxid ez self taxid)) = count self
     \<and> (webenv (fst (search_taxid ez self taxid)) = webenv self
        \<or> (\<exists>sr c w'. esearch ez (''txid'' @ taxid @ ''[Organism]'') = Inr sr
              \<and> Count sr = Inr c \<and> c \<noteq> 0 \<and> WebEnv sr = Some w' \<and> QueryKey sr = None
              \<and> webenv (fst (search_taxid ez self taxid)) = Some w'))"
proof -
  obtain evs r where ro: "resolve_organism ez taxid = (evs, r)"
    by (cases "resolve_organism ez taxid")
  show ?thesis
  proof (cases r)
    case (Inl x)
    then show ?thesis using ro by (simp add: search_taxid_def search_taxid_try_def)
  next
    case name: (Inr name)
    show ?thesis
    proof (cases "esearch ez (''txid'' @ taxid @ ''[Organism]'')")
      case (Inl x)
      then show ?thesis using ro name by (simp add: search_taxid_def search_taxid_try_def)
    next
      case sr: (Inr sr)
      obtain s' evs' res where st: "store_search self name sr = (s', evs', res)"
        by (cases "store_search self name sr")
      have f: "fst (search_taxid ez self taxid) = s'"
        using ro name sr st by (cases res) (simp_all add: search_taxid_def search_taxid_try_def)
      show ?thesis
      proof (cases "Count sr")
        case (Inl e)
        then show ?thesis using store_search_raises_keeps [of sr e self name] st f by simp
      next
        case c: (Inr c)
        have "res \<noteq> Inr (Some c)"
          using assms ro name sr st
          by (cases res) (auto simp: search_taxid_def search_taxid_try_def)
        then have n: "snd (snd (store_search self name sr)) \<noteq> Inr (Some c)"
          using st by simp
        show ?thesis
          using store_search_keeps [OF n c] st f sr c by auto
      qed
    qed
  qed
qed

text \<open>
  Claim C9, as the code has it. Let an instance hold the tokens of an earlier successful
  search, and let a later \<^verbatim>\<open>search_taxid\<close> on it return \<^verbatim>\<open>None\<close> (an exception was
  caught, or the count was 0). Then \<^verbatim>\<open>query_key\<close> and \<^verbatim>\<open>count\<close> keep their earlier values.
  \<^verbatim>\<open>webenv\<close> keeps its earlier value too, with one exception: a reply with a non-zero
  count and a \<^verbatim>\<open>WebEnv\<close> but no \<^verbatim>\<open>QueryKey\<close>, where line 44 has stored the new
  \<^verbatim>\<open>WebEnv\<close> before line 45 raises. In every case both attributes still exist, so a
  following \<^verbatim>\<open>fetch_records\<close> sends its request with the stored tokens and does not report
  a missing session.
\<close>

theorem failed_search_keeps_session:
  assumes "webenv self = Some w" and "query_key self = Some q"
    and "fst (snd (search_taxid ez self taxid)) = None"
  shows "query_key (fst (search_taxid ez self taxid)) = Some q
     \<and> count (fst (search_taxid ez self taxid)) = count self
     \<and> (webenv (fst (search_taxid ez self taxid)) = Some w
        \<or> (\<exists>sr c w'. esearch ez (''txid'' @ taxid @ ''[Organism]'') = Inr sr
              \<and> Count sr = Inr c \<and> c \<noteq> 0 \<and> WebEnv sr = Some w' \<and> QueryKey sr = None
              \<and> webenv (fst (search_taxid ez self taxid)) = Some w'))
     \<and> (\<exists>w''. webenv (fst (search_taxid ez self taxid)) = Some w''
          \<and> filter is_fetch_call
               (snd (fetch_records ez' (fst (search_taxid ez self taxid)) start max_records))
             = [EfetchNucleotide start (min max_records 500) w'' q])
     \<and> Print MsgNoSearchResults
          \<notin> set (snd (fetch_records ez' (fst (search_taxid ez self taxid)) start max_records))"
proof -
  let ?s = "fst (search_taxid ez self taxid)"
  note k = search_taxid_None_keeps [OF assms(3)]
  have q: "query_key ?s = Some q" using k assms(2) by simp
  have c: "count ?s = count self" using k by simp
  have w: "webenv ?s = Some w
        \<or> (\<exists>sr c w'. esearch ez (''txid'' @ taxid @ ''[Organism]'') = Inr sr
              \<and> Count sr = Inr c \<and> c \<noteq> 0 \<and> WebEnv sr = Some w' \<and> QueryKey sr = None
              \<and> webenv ?s = Some w')"
    using k assms(1) by simp
  then obtain w'' where w'': "webenv ?s = Some w''" by auto
  have f: "filter is_fetch_call (snd (fetch_records ez' ?s start max_records))
             = [EfetchNucleotide start (min max_records 500) w'' q]"
    using w'' q by (simp add: fetch_records_def Let_def split: sum.splits)
  have p: "Print MsgNoSearchResults \<notin> set (snd (fetch_records ez' ?s start max_records))"
    using w'' q by (simp add: fetch_records_def Let_def split: sum.splits)
  show ?thesis using q c w w'' f p by simp
qed

lemma search_zero_example:
  "search_taxid ez_zero searched ''9606'' =
     (searched, None,
      [Print (MsgSearching ''9606''), EfetchTaxonomy ''9606'',
       Print (MsgOrganism ''Homo sapiens'' ''9606''), Esearch ''txid9606[Organism]'',
       Print (MsgNoRecordsFor ''Homo sapiens'')])"
  by (simp add: ez_zero_def ez_ok_def search_taxid_def search_taxid_try_def
      resolve_organism_def store_search_def)

theorem failed_search_keeps_session_witness:
  "webenv searched = Some ''WE1'' \<and> query_key searched = Some ''1''
   \<and> fst (snd (search_taxid ez_zero searched ''9606'')) = None
   \<and> fst (search_taxid ez_zero searched ''9606'') = searched
   \<and> filter is_fetch_call
        (snd (fetch_records ez_ok (fst (search_taxid ez_zero searched ''9606'')) 0 20))
      = [EfetchNucleotide 0 20 ''WE1'' ''1'']
   \<and> Print MsgNoSearchResults
        \<notin> set (snd (fetch_records ez_ok (fst (search_taxid ez_zero searched ''9606'')) 0 20))"
proof -
  have a: "webenv searched = Some ''WE1''" by (simp add: searched_def)
  have b: "query_key searched = Some ''1''" by (simp add: searched_def)
  have c: "fst (snd (search_taxid ez_zero searched ''9606'')) = None"
    by (simp add: search_zero_example)
  from failed_search_keeps_session [OF a b c, of ez_ok 0 20]
  show ?thesis using a b c by (simp add: search_zero_example)
qed

text \<open>
  Claim C9 as stated fails for \<^verbatim>\<open>webenv\<close>. The instance \<open>searched\<close> is what a successful
  search leaves (first conjunct). A later search whose reply has count 5 and a \<^verbatim>\<open>WebEnv\<close>
  but no \<^verbatim>\<open>QueryKey\<close> ends in the handler of line 50 and returns \<^verbatim>\<open>None\<close>, yet
  \<^verbatim>\<open>webenv\<close> is no longer the earlier \<open>WE1\<close>: it is the new \<open>WE2\<close>, next to the old
  \<^verbatim>\<open>query_key\<close>.
\<close>

theorem failed_search_counterexample:
  "fst (search_taxid ez_ok (NCBIRetriever_init ''a@b.c'' ''key'') ''9606'') = searched
   \<and> webenv searched = Some ''WE1''
   \<and> fst (snd (search_taxid ez_no_query_key searched ''9606'')) = None
   \<and> webenv (fst (search_taxid ez_no_query_key searched ''9606'')) = Some ''WE2''
   \<and> query_key (fst (search_taxid ez_no_query_key searched ''9606'')) = Some ''1''
   \<and> snd (snd (search_taxid ez_no_query_key searched ''9606'')) =
       [Print (MsgSearching ''9606''), EfetchTaxonomy ''9606'',
        Print (MsgOrganism ''Homo sapiens'' ''9606''), Esearch ''txid9606[Organism]'',
        Print (MsgFound 5), Print (MsgSearchError ''9606'' (KeyError ''QueryKey''))]"
proof -
  have a: "fst (search_taxid ez_ok (NCBIRetriever_init ''a@b.c'' ''key'') ''9606'') = searched"
    by (simp add: search_ok_example)
  have b: "search_taxid ez_no_query_key searched ''9606'' =
     (searched\<lparr>webenv := Some ''WE2''\<rparr>, None,
      [Print (MsgSearching ''9606''), EfetchTaxonomy ''9606'',
       Print (MsgOrganism ''Homo sapiens'' ''9606''), Esearch ''txid9606[Organism]'',
       Print (MsgFound 5), Print (MsgSearchError ''9606'' (KeyError ''QueryKey''))])"
    by (simp add: ez_no_query_key_def ez_ok_def search_taxid_def search_taxid_try_def
        resolve_organism_def store_search_def)
  show ?thesis using a by (simp add: b) (simp add: searched_def)
qed

end
